theory Spec2Isabelle
  imports Main "HOL-Library.Word"
begin

section \<open>Data model\<close>

text \<open>
  Package \<open>mattress\<close> (\<open>src/mattress.go\<close>, the version with the mutex, lines 134 to 221):
  \<open>Secret[T]\<close> keeps the gob encoding of one value of type \<open>T\<close> in a memguard
  \<open>LockedBuffer\<close>. The operations are \<open>NewSecret\<close>, \<open>zero\<close>, \<open>Expose\<close> and \<open>String\<close>.

  Go values that live behind pointers are kept in an explicit memory; an address is the
  index at which the object was allocated, and a Go pointer is \<open>nat option\<close> with
  \<open>None\<close> for \<open>nil\<close>.
\<close>

type_synonym byte = "8 word"

text \<open>A Go \<open>error\<close> value (\<open>nil\<close> is \<open>None\<close> of \<open>error option\<close>).\<close>

datatype error = Error string

text \<open>
  How a call ends: it returns, it panics (a nil pointer is dereferenced), or it never
  returns because it waits for a mutex that is held.
\<close>

datatype 'r outcome = Returns 'r | Panics | Blocks

text \<open>
  The type parameter \<open>T\<close> as the code uses it: its zero value (\<open>var data T\<close>), and what
  \<open>encoding/gob\<close> does at \<open>T\<close>. The package \<open>encoding/gob\<close> is a dependency and is a
  parameter of the model.
  \<^item> \<open>Encode T v\<close>: the bytes \<open>enc.Encode(v)\<close> has written to the \<open>bytes.Buffer\<close> when
    it returns, and the error it returns;
  \<^item> \<open>Decode T bs d\<close>: \<open>Decode(&data)\<close> reading \<open>bs\<close> with \<open>data = d\<close> on entry: the
    content of \<open>data\<close> afterwards, and the error it returns.
\<close>

record 'a gob =
  zero_value :: 'a
  Encode :: "'a \<Rightarrow> byte list \<times> error option"
  Decode :: "byte list \<Rightarrow> 'a \<Rightarrow> 'a \<times> error option"

text \<open>
  \<open>type Secret[T any] struct { buffer *memguard.LockedBuffer; mutex sync.Mutex }\<close>.
  \<open>mutex\<close> is \<open>True\<close> while the mutex is held.
\<close>

record Secret =
  buffer :: nat
  mutex :: bool

text \<open>
  The memory:
  \<^item> \<open>plain\<close>: byte slices in ordinary memory (the backing array of a \<open>bytes.Buffer\<close>);
  \<^item> \<open>enclaves\<close>: memguard \<open>Enclave\<close> objects, each the sealed copy of some bytes (the
    encryption is not modelled: the entry is the sealed plaintext);
  \<^item> \<open>buffers\<close>: memguard \<open>LockedBuffer\<close> objects, \<open>Some bs\<close> while alive with content
    \<open>bs\<close>, \<open>None\<close> once destroyed;
  \<^item> \<open>secrets\<close>: the \<open>Secret\<close> structs;
  \<^item> \<open>finalizers\<close>: the secrets that \<open>runtime.SetFinalizer\<close> has registered.
\<close>

record mem =
  plain :: "byte list list"
  enclaves :: "byte list list"
  buffers :: "byte list option list"
  secrets :: "Secret list"
  finalizers :: "nat list"

definition mem0 :: mem where
  "mem0 = \<lparr>plain = [], enclaves = [], buffers = [], secrets = [], finalizers = []\<rparr>"

section \<open>The memguard and sync calls the package makes\<close>

text \<open>
  \<open>memguard.WipeBytes(buf)\<close>: overwrites the slice with zeros, in place.
\<close>

definition WipeBytes :: "nat \<Rightarrow> mem \<Rightarrow> mem" where
  "WipeBytes b s = s\<lparr>plain := (plain s)[b := replicate (length (plain s ! b)) 0]\<rparr>"

text \<open>
  \<open>memguard.NewEnclave(src)\<close>, as memguard documents it: seals the data into a new
  enclave, wipes \<open>src\<close> after the data is copied, and returns \<open>nil\<close> when \<open>src\<close> is
  empty.
\<close>

definition NewEnclave :: "nat \<Rightarrow> mem \<Rightarrow> nat option \<times> mem" where
  "NewEnclave src s =
     (if plain s ! src = [] then (None, s)
      else (Some (length (enclaves s)),
            WipeBytes src (s\<lparr>enclaves := enclaves s @ [plain s ! src]\<rparr>)))"

text \<open>
  \<open>enclave.Open()\<close>: decrypts the enclave into a new \<open>LockedBuffer\<close>, or returns an
  error. Whether it fails is decided by memguard and the operating system; the error it
  returns (\<open>None\<close> for \<open>nil\<close>) is the parameter \<open>res\<close>. The result is \<open>Inl\<close> of
  the error, or \<open>Inr\<close> of the new buffer.
\<close>

definition Open :: "error option \<Rightarrow> nat \<Rightarrow> mem \<Rightarrow> (error + nat) \<times> mem" where
  "Open res e s =
     (case res of
        Some err \<Rightarrow> (Inl err, s)
      | None \<Rightarrow> (Inr (length (buffers s)),
                 s\<lparr>buffers := buffers s @ [Some (enclaves s ! e)]\<rparr>))"

text \<open>
  \<open>(*LockedBuffer).Destroy()\<close>: wipes and frees the buffer; on a buffer that is already
  destroyed it does nothing.
\<close>

definition Destroy :: "nat \<Rightarrow> mem \<Rightarrow> mem" where
  "Destroy b s = s\<lparr>buffers := (buffers s)[b := None]\<rparr>"

text \<open>
  \<open>(*LockedBuffer).Bytes()\<close>: the content of the buffer; a destroyed buffer has no data
  left and yields the empty (nil) slice.
\<close>

definition Bytes :: "nat \<Rightarrow> mem \<Rightarrow> byte list" where
  "Bytes b s =
     (if b < length (buffers s)
      then (case buffers s ! b of Some bs \<Rightarrow> bs | None \<Rightarrow> [])
      else [])"

text \<open>
  \<open>s.mutex.Lock()\<close> on the secret at address \<open>a\<close>: takes the mutex, or waits while it
  is held (\<open>None\<close>). \<open>s.mutex.Unlock()\<close> releases it.
\<close>

definition Lock :: "nat \<Rightarrow> mem \<Rightarrow> mem option" where
  "Lock a s =
     (if mutex (secrets s ! a) then None
      else Some (s\<lparr>secrets := (secrets s)[a := (secrets s ! a)\<lparr>mutex := True\<rparr>]\<rparr>))"

definition Unlock :: "nat \<Rightarrow> mem \<Rightarrow> mem" where
  "Unlock a s = s\<lparr>secrets := (secrets s)[a := (secrets s ! a)\<lparr>mutex := False\<rparr>]\<rparr>"

section \<open>The package\<close>

text \<open>
  \<open>func NewSecret[T any](data T) (*Secret[T], error)\<close>, lines 165 to 195. The result
  is the pair the Go function returns. \<open>open_result\<close> is what \<open>enclave.Open()\<close> answers.
  When \<open>NewEnclave\<close> returns \<open>nil\<close>, \<open>enclave.Open()\<close> dereferences it and panics.
\<close>

definition NewSecret ::
  "'a gob \<Rightarrow> error option \<Rightarrow> 'a \<Rightarrow> mem \<Rightarrow> ((nat option \<times> error option) \<times> mem) outcome" where
  "NewSecret T open_result data s =
     (let buf = length (plain s);
          (written, err) = Encode T data;
          s1 = s\<lparr>plain := plain s @ [written]\<rparr>
      in case err of
           Some e \<Rightarrow> Returns ((None, Some e), s1)
         | None \<Rightarrow>
            (let bytes = buf in
             case NewEnclave bytes s1 of
               (None, s2) \<Rightarrow> Panics
             | (Some enclave, s2) \<Rightarrow>
                (case Open open_result enclave s2 of
                   (Inl e, s3) \<Rightarrow> Returns ((None, Some e), s3)
                 | (Inr lb, s3) \<Rightarrow>
                    (let s4 = WipeBytes bytes s3;
                         secret = length (secrets s4);
                         s5 = s4\<lparr>secrets := secrets s4 @ [\<lparr>buffer = lb, mutex = False\<rparr>]\<rparr>;
                         s6 = s5\<lparr>finalizers := finalizers s5 @ [secret]\<rparr>
                     in Returns ((Some secret, None), s6)))))"

text \<open>
  \<open>func (s *Secret[T]) zero()\<close>, lines 199 to 201: \<open>s.buffer.Destroy()\<close>. Reading
  \<open>s.buffer\<close> through a nil \<open>s\<close> panics. (An address outside the memory does not
  arise in Go, where a pointer is nil or valid; the model panics there too.)
\<close>

definition zero :: "nat option \<Rightarrow> mem \<Rightarrow> (unit \<times> mem) outcome" where
  "zero p s =
     (case p of
        None \<Rightarrow> Panics
      | Some a \<Rightarrow>
         if length (secrets s) \<le> a then Panics
         else Returns ((), Destroy (buffer (secrets s ! a)) s))"

text \<open>
  \<open>func (s *Secret[T]) Expose() T\<close>, lines 206 to 215. \<open>Expose_locked\<close> is the part
  that runs while the mutex is held: lines 210 to 214 and the deferred \<open>Unlock\<close>. The
  error that \<open>Decode\<close> returns is dropped, as in the source.
\<close>

definition Expose_locked :: "'a gob \<Rightarrow> nat \<Rightarrow> mem \<Rightarrow> 'a \<times> mem" where
  "Expose_locked T a s =
     (let data = zero_value T;
          (data', _) = Decode T (Bytes (buffer (secrets s ! a)) s) data
      in (data', Unlock a s))"

definition Expose :: "'a gob \<Rightarrow> nat option \<Rightarrow> mem \<Rightarrow> ('a \<times> mem) outcome" where
  "Expose T p s =
     (case p of
        None \<Rightarrow> Panics
      | Some a \<Rightarrow>
         if length (secrets s) \<le> a then Panics
         else (case Lock a s of
                 None \<Rightarrow> Blocks
               | Some s1 \<Rightarrow> Returns (Expose_locked T a s1)))"

text \<open>
  \<open>func (s *Secret[T]) String() string\<close>, lines 219 to 221. The receiver is not
  dereferenced.
\<close>

definition String :: "nat option \<Rightarrow> mem \<Rightarrow> (string \<times> mem) outcome" where
  "String p s = Returns (''[SECRET]'', s)"

section \<open>A serializer stub and a client, for concrete runs\<close>

text \<open>
  A stand-in for gob at \<open>T = []byte\<close>, used only to run the package on concrete
  inputs. It writes a one-byte length and then the payload; it cannot encode the byte
  \<open>0xFF\<close> and fails there, after having written what precedes it. Decoding an empty
  or ill-formed input fails and leaves \<open>data\<close> as it was.
\<close>

definition stub_Encode :: "byte list \<Rightarrow> byte list \<times> error option" where
  "stub_Encode v =
     (let pre = takeWhile (\<lambda>b. b \<noteq> 255) v
      in if pre = v then (of_nat (length v) # v, None)
         else (of_nat (length v) # pre, Some (Error ''stub: cannot encode 0xFF'')))"

definition stub_Decode :: "byte list \<Rightarrow> byte list \<Rightarrow> byte list \<times> error option" where
  "stub_Decode bs d =
     (case bs of
        [] \<Rightarrow> (d, Some (Error ''EOF''))
      | n # rest \<Rightarrow>
         if unat n = length rest then (rest, None)
         else (d, Some (Error ''unexpected EOF'')))"

definition stub_gob :: "byte list gob" where
  "stub_gob = \<lparr>zero_value = [], Encode = stub_Encode, Decode = stub_Decode\<rparr>"

text \<open>
  The client of the package's example, \<open>s, _ := NewSecret(v); s.Expose()\<close>: the
  outcome of \<open>Expose\<close> on whatever pointer \<open>NewSecret\<close> returned.
\<close>

definition Expose_NewSecret :: "'a gob \<Rightarrow> error option \<Rightarrow> 'a \<Rightarrow> mem \<Rightarrow> 'a outcome" where
  "Expose_NewSecret T open_result v s =
     (case NewSecret T open_result v s of
        Returns ((p, _), s') \<Rightarrow>
          (case Expose T p s' of
             Returns (x, _) \<Rightarrow> Returns x
           | Panics \<Rightarrow> Panics
           | Blocks \<Rightarrow> Blocks)
      | Panics \<Rightarrow> Panics
      | Blocks \<Rightarrow> Blocks)"

text \<open>
  Memories of concrete runs. \<open>live_mem\<close> is the memory after
  \<open>NewSecret([]byte{1, 2, 3})\<close> on the empty memory; \<open>destroyed_mem\<close> is \<open>live_mem\<close>
  after \<open>zero\<close>; \<open>inflight_mem\<close> is \<open>live_mem\<close> while an \<open>Expose\<close> call holds the
  mutex; \<open>corrupt_mem\<close> has a live buffer whose bytes are not a well-formed encoding.
\<close>

definition live_mem :: mem where
  "live_mem = \<lparr>plain = [[0, 0, 0, 0]], enclaves = [[3, 1, 2, 3]],
                buffers = [Some [3, 1, 2, 3]],
                secrets = [\<lparr>buffer = 0, mutex = False\<rparr>], finalizers = [0]\<rparr>"

definition destroyed_mem :: mem where
  "destroyed_mem = \<lparr>plain = [[0, 0, 0, 0]], enclaves = [[3, 1, 2, 3]],
                     buffers = [None],
                     secrets = [\<lparr>buffer = 0, mutex = False\<rparr>], finalizers = [0]\<rparr>"


definition corrupt_mem :: mem where
  "corrupt_mem = \<lparr>plain = [[0, 0]], enclaves = [[5, 1]],
                   buffers = [Some [5, 1]],
                   secrets = [\<lparr>buffer = 0, mutex = False\<rparr>], finalizers = [0]\<rparr>"

text \<open>
  A stand-in for gob at a struct type with two byte fields \<open>A\<close> and \<open>B\<close>. Every
  value encodes, as the two bytes. The decoder stores into the destination field by
  field, as gob does: it stores \<open>A\<close>, and then fails on a missing \<open>B\<close> or on
  \<open>B = 0xFF\<close> (as a \<open>GobDecode\<close> method of the field's type may), leaving \<open>B\<close> as it
  was.
\<close>

definition struct_Encode :: "byte \<times> byte \<Rightarrow> byte list \<times> error option" where
  "struct_Encode v = ([fst v, snd v], None)"

definition struct_Decode ::
  "byte list \<Rightarrow> byte \<times> byte \<Rightarrow> (byte \<times> byte) \<times> error option" where
  "struct_Decode bs d =
     (case bs of
        [] \<Rightarrow> (d, Some (Error ''EOF''))
      | [a] \<Rightarrow> ((a, snd d), Some (Error ''unexpected EOF''))
      | a # b # _ \<Rightarrow>
         if b = 255 then ((a, snd d), Some (Error ''stub: field B rejected''))
         else ((a, b), None))"

definition struct_gob :: "(byte \<times> byte) gob" where
  "struct_gob = \<lparr>zero_value = (0, 0), Encode = struct_Encode, Decode = struct_Decode\<rparr>"

text \<open>
  \<open>struct_mem\<close> is the memory after \<open>NewSecret\<close> of the struct with \<open>A = 7\<close> and
  \<open>B = 0xFF\<close> on the empty memory.
\<close>

definition struct_mem :: mem where
  "struct_mem = \<lparr>plain = [[0, 0]], enclaves = [[7, 255]],
                  buffers = [Some [7, 255]],
                  secrets = [\<lparr>buffer = 0, mutex = False\<rparr>], finalizers = [0]\<rparr>"

text \<open>
  A live cell, between calls: the pointer is valid, nobody holds its mutex, and its
  buffer has not been destroyed.
\<close>

definition live :: "nat \<Rightarrow> mem \<Rightarrow> bool" where
  "live a s \<longleftrightarrow>
     a < length (secrets s) \<and> \<not> mutex (secrets s ! a) \<and>
     buffer (secrets s ! a) < length (buffers s) \<and>
     buffers s ! buffer (secrets s ! a) \<noteq> None"

section \<open>What each operation does to the memory\<close>

lemmas lib_defs =
  NewEnclave_def WipeBytes_def Open_def Destroy_def Bytes_def Lock_def Unlock_def

lemmas stub_defs = stub_gob_def stub_Encode_def stub_Decode_def

lemmas struct_defs = struct_gob_def struct_Encode_def struct_Decode_def

lemma NewSecret_returns_secret:
  assumes "NewSecret T r v s = Returns ((Some a, None), s')"
  shows "snd (Encode T v) = None" and "fst (Encode T v) \<noteq> []" and "r = None"
    and "a = length (secrets s)"
    and "s' = s\<lparr>plain := plain s @ [replicate (length (fst (Encode T v))) 0],
                 enclaves := enclaves s @ [fst (Encode T v)],
                 buffers := buffers s @ [Some (fst (Encode T v))],
                 secrets := secrets s @ [\<lparr>buffer = length (buffers s), mutex = False\<rparr>],
                 finalizers := finalizers s @ [length (secrets s)]\<rparr>"
  using assms
  by (auto simp: NewSecret_def lib_defs Let_def
      split: prod.splits option.splits sum.splits if_splits)

lemma NewSecret_live:
  assumes "NewSecret T r v s = Returns ((Some a, None), s')"
  shows "live a s'" and "Bytes (buffer (secrets s' ! a)) s' = fst (Encode T v)"
  using NewSecret_returns_secret(4,5) [OF assms]
  by (simp_all add: live_def Bytes_def nth_append)

lemma Expose_returns:
  assumes "a < length (secrets s)" and "\<not> mutex (secrets s ! a)"
  shows "Expose T (Some a) s =
           Returns (fst (Decode T (Bytes (buffer (secrets s ! a)) s) (zero_value T)), s)"
  using assms
  by (simp add: Expose_def Expose_locked_def Lock_def Unlock_def Bytes_def
      list_update_same_conv split: prod.splits)

text \<open>
  \<open>Expose\<close> waits while the mutex is held; \<open>zero\<close> never looks at the mutex.
\<close>

lemma Expose_blocks:
  assumes "a < length (secrets s)" and "mutex (secrets s ! a)"
  shows "Expose T (Some a) s = Blocks"
  using assms by (simp add: Expose_def Lock_def)

lemma zero_ignores_mutex:
  assumes "a < length (secrets s)"
  shows "zero (Some a) s = Returns ((), Destroy (buffer (secrets s ! a)) s)"
    and "secrets (Destroy (buffer (secrets s ! a)) s) = secrets s"
  using assms by (simp_all add: zero_def Destroy_def)

lemma zero_returns:
  assumes "zero p s = Returns ((), s')"
  shows "\<exists>a. p = Some a \<and> a < length (secrets s) \<and> s' = Destroy (buffer (secrets s ! a)) s"
  using assms by (auto simp: zero_def split: option.splits if_splits)

lemma Bytes_Destroy: "Bytes b (Destroy b s) = []"
  by (simp add: Bytes_def Destroy_def)

lemma secrets_Destroy: "secrets (Destroy b s) = secrets s"
  by (simp add: Destroy_def)

lemma Destroy_twice: "Destroy b (Destroy b s) = Destroy b s"
  by (simp add: Destroy_def)

text \<open>
  The plaintext buffer of \<open>NewSecret\<close> is the slice at address \<open>length (plain s)\<close>. Once
  encoding has succeeded, every return leaves it zeroed: \<open>NewEnclave\<close> wipes it, and on
  success \<open>WipeBytes\<close> wipes it again. When encoding fails it is left as written.
\<close>

lemma NewSecret_wipes_after_encoding:
  assumes "snd (Encode T v) = None"
      and "NewSecret T r v s = Returns (res, s')"
  shows "plain s' ! length (plain s) = replicate (length (fst (Encode T v))) 0"
  using assms
  by (auto simp: NewSecret_def lib_defs Let_def
      split: prod.splits option.splits sum.splits if_splits)

lemma NewSecret_keeps_failed_encoding:
  assumes "snd (Encode T v) = Some e"
      and "NewSecret T r v s = Returns (res, s')"
  shows "plain s' ! length (plain s) = fst (Encode T v)"
  using assms
  by (auto simp: NewSecret_def Let_def split: prod.splits)

lemma live_mem_run:
  "NewSecret stub_gob None [1, 2, 3] mem0 = Returns ((Some 0, None), live_mem)"
  by (simp add: NewSecret_def stub_defs lib_defs mem0_def live_mem_def)

lemma destroyed_mem_run: "zero (Some 0) live_mem = Returns ((), destroyed_mem)"
  by (simp add: zero_def Destroy_def live_mem_def destroyed_mem_def)

section \<open>Round trip\<close>

text \<open>
  Claim C1, as amended. Whenever \<open>NewSecret(v)\<close> returns a secret (gob has encoded
  \<open>v\<close> and \<open>enclave.Open\<close> has succeeded) and gob decodes the encoding of \<open>v\<close> back
  to \<open>v\<close>, \<open>Expose\<close> on that secret returns \<open>v\<close> and leaves the memory as it was. The
  wipe of the plaintext slice does not reach the copy held by the locked buffer.
\<close>

theorem NewSecret_Expose_round_trip:
  assumes "NewSecret T open_result v s = Returns ((Some a, None), s')"
      and "fst (Decode T (fst (Encode T v)) (zero_value T)) = v"
  shows "Expose T (Some a) s' = Returns (v, s') \<and>
         Expose_NewSecret T open_result v s = Returns v"
proof -
  have l: "live a s'" and b: "Bytes (buffer (secrets s' ! a)) s' = fst (Encode T v)"
    using NewSecret_live [OF assms(1)] by simp_all
  from l have "Expose T (Some a) s' =
      Returns (fst (Decode T (Bytes (buffer (secrets s' ! a)) s') (zero_value T)), s')"
    by (intro Expose_returns) (simp_all add: live_def)
  with b assms(2) have e: "Expose T (Some a) s' = Returns (v, s')"
    by simp
  with assms(1) show ?thesis
    by (simp add: Expose_NewSecret_def)
qed

text \<open>
  Claim C1, a run of the amended statement: \<open>NewSecret([]byte{1, 2, 3})\<close> on the empty
  memory, then \<open>Expose\<close>.
\<close>

theorem NewSecret_Expose_round_trip_witness:
  "NewSecret stub_gob None [1, 2, 3] mem0 = Returns ((Some 0, None), live_mem) \<and>
   fst (Decode stub_gob (fst (Encode stub_gob [1, 2, 3])) (zero_value stub_gob)) = [1, 2, 3] \<and>
   Expose stub_gob (Some 0) live_mem = Returns ([1, 2, 3], live_mem) \<and>
   Expose_NewSecret stub_gob None [1, 2, 3] mem0 = Returns [1, 2, 3]"
proof -
  have d: "fst (Decode stub_gob (fst (Encode stub_gob [1, 2, 3])) (zero_value stub_gob))
             = [1, 2, 3]"
    by (simp add: stub_defs)
  show ?thesis
    using live_mem_run d NewSecret_Expose_round_trip [OF live_mem_run d] by blast
qed

text \<open>
  Claim C1 as stated fails: encoding \<open>[]byte{1, 2, 3}\<close> succeeds and decodes back, but
  \<open>enclave.Open\<close> returns an error, so \<open>NewSecret\<close> returns \<open>nil\<close> (line 181) and
  \<open>Expose\<close> on it panics instead of returning the value.
\<close>

theorem NewSecret_Expose_counterexample:
  "snd (Encode stub_gob [1, 2, 3]) = None \<and>
   fst (Decode stub_gob (fst (Encode stub_gob [1, 2, 3])) (zero_value stub_gob)) = [1, 2, 3] \<and>
   Expose_NewSecret stub_gob (Some (Error ''decryption failed'')) [1, 2, 3] mem0 = Panics"
  by (simp add: Expose_NewSecret_def NewSecret_def Expose_def stub_defs lib_defs mem0_def)

section \<open>Expose after destroy\<close>

text \<open>
  Claim C2, as amended. On a cell on which \<open>zero\<close> has been called, \<open>Expose\<close> does not
  fail: \<open>Bytes()\<close> of the destroyed buffer is empty, the error of \<open>Decode\<close> is dropped,
  and \<open>Expose\<close> returns what \<open>Decode\<close> left in \<open>data\<close>, the zero value of \<open>T\<close> (decoding
  the empty input stores nothing). The memory is left as it was.
\<close>

theorem Expose_after_zero:
  assumes "zero (Some a) s = Returns ((), s')"
      and "\<not> mutex (secrets s ! a)"
      and "fst (Decode T [] (zero_value T)) = zero_value T"
  shows "Expose T (Some a) s' = Returns (zero_value T, s')"
proof -
  from zero_returns [OF assms(1)]
  have a: "a < length (secrets s)" and s': "s' = Destroy (buffer (secrets s ! a)) s"
    by auto
  from a assms(2) have "Expose T (Some a) s' =
      Returns (fst (Decode T (Bytes (buffer (secrets s' ! a)) s') (zero_value T)), s')"
    by (intro Expose_returns) (simp_all add: s' secrets_Destroy)
  then show ?thesis
    using assms(3) by (simp add: s' secrets_Destroy Bytes_Destroy)
qed

text \<open>Claim C2, a run of the amended statement on \<open>live_mem\<close>.\<close>

theorem Expose_after_zero_witness:
  "zero (Some 0) live_mem = Returns ((), destroyed_mem) \<and>
   \<not> mutex (secrets live_mem ! 0) \<and>
   fst (Decode stub_gob [] (zero_value stub_gob)) = zero_value stub_gob \<and>
   Expose stub_gob (Some 0) destroyed_mem = Returns (zero_value stub_gob, destroyed_mem)"
proof -
  have m: "\<not> mutex (secrets live_mem ! 0)"
    by (simp add: live_mem_def)
  have d: "fst (Decode stub_gob [] (zero_value stub_gob)) = zero_value stub_gob"
    by (simp add: stub_defs)
  show ?thesis
    using destroyed_mem_run m d Expose_after_zero [OF destroyed_mem_run m d] by blast
qed

text \<open>
  Claim C2 as stated fails: the secret made from \<open>[]byte{1, 2, 3}\<close> exposes
  \<open>[1, 2, 3]\<close>; after \<open>zero\<close>, \<open>Expose\<close> returns normally, with the empty slice (the zero
  value of \<open>[]byte\<close>) as if it were the secret.
\<close>

theorem Expose_after_zero_counterexample:
  "NewSecret stub_gob None [1, 2, 3] mem0 = Returns ((Some 0, None), live_mem) \<and>
   Expose stub_gob (Some 0) live_mem = Returns ([1, 2, 3], live_mem) \<and>
   zero (Some 0) live_mem = Returns ((), destroyed_mem) \<and>
   Expose stub_gob (Some 0) destroyed_mem = Returns ([], destroyed_mem)"
  by (simp add: NewSecret_def Expose_def Expose_locked_def zero_def stub_defs lib_defs
      mem0_def live_mem_def destroyed_mem_def)

section \<open>The plaintext buffer and the failure paths of NewSecret\<close>

text \<open>
  Claim C3 says that the plaintext buffer is wiped on every exit path. On the path of
  a failed encoding (line 172) it is not: the stub fails at the byte \<open>0xFF\<close> after it
  has written the length and the first byte, and \<open>NewSecret\<close> returns with these two
  bytes still in the buffer.
\<close>

theorem NewSecret_failed_encoding_not_wiped:
  "NewSecret stub_gob None [1, 255, 2] mem0 =
     Returns ((None, Some (Error ''stub: cannot encode 0xFF'')),
              \<lparr>plain = [[3, 1]], enclaves = [], buffers = [], secrets = [],
                 finalizers = []\<rparr>)"
  by (simp add: NewSecret_def stub_defs mem0_def)

text \<open>
  Claim C4. When gob fails to encode the value, \<open>NewSecret\<close> returns \<open>nil\<close> and the
  error, and the memory differs only by the \<open>bytes.Buffer\<close>: no enclave, no locked
  buffer, no secret and no finalizer has been created.
\<close>

theorem NewSecret_encode_failure:
  assumes "snd (Encode T v) = Some e"
  shows "NewSecret T open_result v s =
           Returns ((None, Some e), s\<lparr>plain := plain s @ [fst (Encode T v)]\<rparr>)"
  using assms by (auto simp: NewSecret_def Let_def split: prod.splits)

text \<open>Claim C4, a run: the stub cannot encode \<open>[]byte{0xFF}\<close>.\<close>

theorem NewSecret_encode_failure_witness:
  "snd (Encode stub_gob [255]) = Some (Error ''stub: cannot encode 0xFF'') \<and>
   NewSecret stub_gob None [255] live_mem =
     Returns ((None, Some (Error ''stub: cannot encode 0xFF'')),
              live_mem\<lparr>plain := plain live_mem @ [fst (Encode stub_gob [255])]\<rparr>)"
proof -
  have e: "snd (Encode stub_gob [255]) = Some (Error ''stub: cannot encode 0xFF'')"
    by (simp add: stub_defs)
  show ?thesis
    using e NewSecret_encode_failure [OF e, of None live_mem] by blast
qed

section \<open>Redaction\<close>

text \<open>
  Claim C5. On every secret that \<open>NewSecret\<close> has returned, whatever the value,
  \<open>String()\<close> returns \<open>[SECRET]\<close>.
\<close>

theorem String_of_new_secret:
  assumes "NewSecret T open_result v s = Returns ((Some a, None), s')"
  shows "String (Some a) s' = Returns (''[SECRET]'', s')"
  by (simp add: String_def)

text \<open>Claim C5, a run on the secret made from \<open>[]byte{1, 2, 3}\<close>.\<close>

theorem String_of_new_secret_witness:
  "NewSecret stub_gob None [1, 2, 3] mem0 = Returns ((Some 0, None), live_mem) \<and>
   String (Some 0) live_mem = Returns (''[SECRET]'', live_mem)"
  using live_mem_run String_of_new_secret [OF live_mem_run] by blast

text \<open>
  Claim C10. \<open>String()\<close> is constant: for any receivers and any memories it returns
  \<open>[SECRET]\<close> and leaves the memory as it is, also when the buffer has been destroyed.
\<close>

theorem String_constant:
  "String p1 s1 = Returns (''[SECRET]'', s1) \<and>
   String p2 (Destroy b s2) = Returns (''[SECRET]'', Destroy b s2)"
  by (simp add: String_def)

section \<open>The mutex\<close>


section \<open>Expose leaves the cell as it was\<close>

text \<open>
  Claim C7. On a live cell \<open>Expose\<close> returns, the memory after the call is the memory
  before it (the buffer is neither changed nor released, the mutex is free again), the
  cell is still live, and a second \<open>Expose\<close> returns the same value.
\<close>

theorem Expose_frame:
  assumes "live a s"
  shows "case Expose T (Some a) s of
           Returns (v, s') \<Rightarrow> s' = s \<and> live a s' \<and> Expose T (Some a) s' = Returns (v, s')
         | Panics \<Rightarrow> False
         | Blocks \<Rightarrow> False"
proof -
  from assms have "Expose T (Some a) s =
      Returns (fst (Decode T (Bytes (buffer (secrets s ! a)) s) (zero_value T)), s)"
    by (intro Expose_returns) (simp_all add: live_def)
  with assms show ?thesis
    by simp
qed

text \<open>Claim C7, a run on \<open>live_mem\<close>.\<close>

theorem Expose_frame_witness:
  "live 0 live_mem \<and>
   (case Expose stub_gob (Some 0) live_mem of
      Returns (v, s') \<Rightarrow>
        s' = live_mem \<and> live 0 s' \<and> Expose stub_gob (Some 0) s' = Returns (v, s')
    | Panics \<Rightarrow> False
    | Blocks \<Rightarrow> False)"
proof -
  have l: "live 0 live_mem"
    by (simp add: live_def live_mem_def)
  show ?thesis
    using l Expose_frame [OF l, of stub_gob] by blast
qed

section \<open>Destroying twice\<close>

text \<open>
  Claim C8. A second \<open>zero\<close> on the same cell is a no-op: it returns normally and
  leaves the memory as the first call left it.
\<close>

theorem zero_twice:
  assumes "zero p s = Returns ((), s')"
  shows "zero p s' = Returns ((), s')"
proof -
  from zero_returns [OF assms] obtain a where
    "p = Some a" "a < length (secrets s)" "s' = Destroy (buffer (secrets s ! a)) s"
    by blast
  then show ?thesis
    by (simp add: zero_def secrets_Destroy Destroy_twice)
qed

text \<open>Claim C8, a run on \<open>live_mem\<close>.\<close>

theorem zero_twice_witness:
  "zero (Some 0) live_mem = Returns ((), destroyed_mem) \<and>
   zero (Some 0) destroyed_mem = Returns ((), destroyed_mem)"
  using destroyed_mem_run zero_twice [OF destroyed_mem_run] by blast

section \<open>A failed decoding\<close>

text \<open>
  Claim C9, as amended. When \<open>Decode\<close> fails on the bytes of the buffer, \<open>Expose\<close>
  drops the error and returns normally, with the memory as it was. The value it returns
  is what \<open>Decode\<close> left in \<open>data\<close>, which was the zero value of \<open>T\<close> on entry: the
  zero value when \<open>Decode\<close> stored nothing before it failed, and otherwise the part it
  had stored.
\<close>

theorem Expose_discards_decode_error:
  assumes "a < length (secrets s)" and "\<not> mutex (secrets s ! a)"
      and "snd (Decode T (Bytes (buffer (secrets s ! a)) s) (zero_value T)) = Some e"
  shows "Expose T (Some a) s =
           Returns (fst (Decode T (Bytes (buffer (secrets s ! a)) s) (zero_value T)), s)"
  using Expose_returns [OF assms(1,2), of T] .

text \<open>
  Claim C9, a run of the amended statement on \<open>corrupt_mem\<close>, whose live buffer
  announces five bytes and holds one: the stub stores nothing, and \<open>Expose\<close> returns the
  zero value.
\<close>

theorem Expose_discards_decode_error_witness:
  "0 < length (secrets corrupt_mem) \<and> \<not> mutex (secrets corrupt_mem ! 0) \<and>
   snd (Decode stub_gob (Bytes (buffer (secrets corrupt_mem ! 0)) corrupt_mem)
          (zero_value stub_gob)) = Some (Error ''unexpected EOF'') \<and>
   Expose stub_gob (Some 0) corrupt_mem = Returns (zero_value stub_gob, corrupt_mem)"
proof -
  have a: "0 < length (secrets corrupt_mem)" and m: "\<not> mutex (secrets corrupt_mem ! 0)"
    by (simp_all add: corrupt_mem_def)
  have d: "Decode stub_gob (Bytes (buffer (secrets corrupt_mem ! 0)) corrupt_mem)
             (zero_value stub_gob) = (zero_value stub_gob, Some (Error ''unexpected EOF''))"
    by (simp add: stub_defs Bytes_def corrupt_mem_def)
  then have e: "snd (Decode stub_gob (Bytes (buffer (secrets corrupt_mem ! 0)) corrupt_mem)
                  (zero_value stub_gob)) = Some (Error ''unexpected EOF'')"
    by simp
  from Expose_discards_decode_error [OF a m e]
  have "Expose stub_gob (Some 0) corrupt_mem = Returns (zero_value stub_gob, corrupt_mem)"
    by (simp add: d)
  with a m e show ?thesis
    by blast
qed

text \<open>
  Claim C9 as stated fails: the secret made from the struct with \<open>A = 7\<close> and
  \<open>B = 0xFF\<close> holds bytes on which \<open>Decode\<close> fails after it has stored \<open>A\<close>. \<open>Expose\<close>
  drops the error and returns the struct with \<open>A = 7\<close> and \<open>B = 0\<close>, which is not the
  zero value of the type.
\<close>

theorem Expose_decode_error_counterexample:
  "NewSecret struct_gob None (7, 255) mem0 = Returns ((Some 0, None), struct_mem) \<and>
   snd (Decode struct_gob (Bytes (buffer (secrets struct_mem ! 0)) struct_mem)
          (zero_value struct_gob)) = Some (Error ''stub: field B rejected'') \<and>
   Expose struct_gob (Some 0) struct_mem = Returns ((7, 0), struct_mem) \<and>
   zero_value struct_gob = (0, 0) \<and>
   Expose struct_gob (Some 0) struct_mem \<noteq> Returns (zero_value struct_gob, struct_mem)"
  by (simp add: NewSecret_def Expose_def Expose_locked_def struct_defs lib_defs
      mem0_def struct_mem_def)

end
